theory Spec2Isabelle
  imports Main
begin

section \<open>Python strings\<close>

text \<open>
  The integration handles command names, host names, PINs and package identifiers as
  Python \<open>str\<close> values. They are modelled as HOL strings. The helpers below follow the
  \<open>str\<close> methods used by the sources on ASCII text (the alphabet of every command name
  of \<^verbatim>\<open>remote.py\<close> and of every literal in \<^verbatim>\<open>device.py\<close> and
  \<^verbatim>\<open>setup_flow.py\<close>); characters outside ASCII are left alone by the case
  conversions.
\<close>

definition code_point :: "char \<Rightarrow> nat" where
  "code_point c = of_char c"

definition is_upper :: "char \<Rightarrow> bool" where
  "is_upper c = (65 \<le> code_point c \<and> code_point c \<le> 90)"

definition is_lower :: "char \<Rightarrow> bool" where
  "is_lower c = (97 \<le> code_point c \<and> code_point c \<le> 122)"

definition is_digit :: "char \<Rightarrow> bool" where
  "is_digit c = (48 \<le> code_point c \<and> code_point c \<le> 57)"

definition is_space :: "char \<Rightarrow> bool" where
  \<comment> \<open>\<open>str.isspace\<close> on ASCII: tab, LF, VT, FF, CR, the separators 0x1C..0x1F and space.\<close>
  "is_space c = ((9 \<le> code_point c \<and> code_point c \<le> 13)
               \<or> (28 \<le> code_point c \<and> code_point c \<le> 32))"

definition lower_char :: "char \<Rightarrow> char" where
  "lower_char c = (if is_upper c then char_of (code_point c + 32) else c)"

definition upper_char :: "char \<Rightarrow> char" where
  "upper_char c = (if is_lower c then char_of (code_point c - 32) else c)"

definition lower :: "string \<Rightarrow> string" where
  \<comment> \<open>\<open>s.lower()\<close>\<close>
  "lower s = map lower_char s"

definition upper :: "string \<Rightarrow> string" where
  \<comment> \<open>\<open>s.upper()\<close>\<close>
  "upper s = map upper_char s"

definition strip :: "string \<Rightarrow> string" where
  \<comment> \<open>\<open>s.strip()\<close>: leading and trailing whitespace removed.\<close>
  "strip s = rev (dropWhile is_space (rev (dropWhile is_space s)))"

definition startswith :: "string \<Rightarrow> string \<Rightarrow> bool" where
  \<comment> \<open>\<open>s.startswith(p)\<close>\<close>
  "startswith s p = (take (length p) s = p)"

function replace :: "string \<Rightarrow> string \<Rightarrow> string \<Rightarrow> string" where
  \<comment> \<open>\<open>s.replace(old, new)\<close>: every non-overlapping occurrence, scanning from the left.\<close>
  "replace s old new =
     (if old = [] then new @ concat (map (\<lambda>c. c # new) s)
      else if s = [] then []
      else if startswith s old then new @ replace (drop (length old) s) old new
      else hd s # replace (tl s) old new)"
  by pat_completeness auto
termination
  by (relation "measure (\<lambda>(s, old, new). length s)") (auto simp: startswith_def)

declare replace.simps [simp del]

definition split_once :: "string \<Rightarrow> char \<Rightarrow> string list" where
  \<comment> \<open>\<open>s.split(sep, 1)\<close> for a one-character separator: one or two pieces.\<close>
  "split_once s sep =
     (case dropWhile (\<lambda>c. c \<noteq> sep) s of
        [] \<Rightarrow> [s]
      | _ # rest \<Rightarrow> [takeWhile (\<lambda>c. c \<noteq> sep) s, rest])"

fun split_all :: "string \<Rightarrow> char \<Rightarrow> string list" where
  \<comment> \<open>\<open>s.split(sep)\<close> for a one-character separator.\<close>
  "split_all [] sep = [[]]"
| "split_all (c # cs) sep =
     (if c = sep then [] # split_all cs sep
      else (case split_all cs sep of
              [] \<Rightarrow> [[c]]
            | w # ws \<Rightarrow> (c # w) # ws))"

section \<open>Values, exceptions and the transport\<close>

text \<open>
  The client methods are coroutines of \<^verbatim>\<open>intg_firetv/client.py\<close>, which is not
  part of the sources at hand. What a call gives back is therefore a parameter of the
  model: an environment \<open>env\<close> maps the calls made so far and the next call to its
  outcome, a returned Python value or a raised exception. Every call is appended to a
  trace, so that "no network call" and "closed last" are statements about the trace.
\<close>

datatype pyval = PNone | PBool bool | PStr string

fun truthy :: "pyval \<Rightarrow> bool" where
  \<comment> \<open>Python truth value, as tested by \<open>if not x\<close>.\<close>
  "truthy PNone = False"
| "truthy (PBool b) = b"
| "truthy (PStr s) = (s \<noteq> [])"

text \<open>
  Exceptions carry their \<open>str()\<close> text. All four classes are instances of
  \<open>Exception\<close>. Modelled from the spec: \<open>TokenInvalidError\<close>, defined in the absent
  \<^verbatim>\<open>client.py\<close>, is the distinct error the transport raises when the device no
  longer accepts the credential; \<^verbatim>\<open>remote.py\<close> lists its handler before the one
  for \<open>Exception\<close>, as for a subclass. Signals that are not instances of \<open>Exception\<close>
  (task cancellation, keyboard interrupt) are outside the model.
\<close>

datatype exn =
    TokenInvalidError string
  | ValueError string
  | IndexError string
  | OtherException string

fun exn_str :: "exn \<Rightarrow> string" where
  "exn_str (TokenInvalidError m) = m"
| "exn_str (ValueError m) = m"
| "exn_str (IndexError m) = m"
| "exn_str (OtherException m) = m"

datatype 'a outcome = Returned 'a | Raised exn

datatype key =
    Dpad_up | Dpad_down | Dpad_left | Dpad_right | Select | Home | Back | Menu | Epg
  | Volume_up | Volume_down | Mute | Power | Sleep
  | Play_pause | Pause | Fast_forward | Rewind

datatype call =
    New_client string int      \<comment> \<open>\<open>FireTVClient(host, port)\<close>\<close>
  | Wake_up                    \<comment> \<open>\<open>client.wake_up()\<close>\<close>
  | Settle nat                 \<comment> \<open>\<open>asyncio.sleep(seconds)\<close>\<close>
  | Test_connection nat nat    \<comment> \<open>\<open>client.test_connection(max_retries, retry_delay)\<close>\<close>
  | Request_pin string         \<comment> \<open>\<open>client.request_pin(friendly_name)\<close>\<close>
  | Verify_pin string          \<comment> \<open>\<open>client.verify_pin(pin)\<close>\<close>
  | Close                      \<comment> \<open>\<open>client.close()\<close>\<close>
  | Press key                  \<comment> \<open>\<open>client.dpad_up()\<close> and the other 17 key methods\<close>
  | Launch_app string          \<comment> \<open>\<open>client.launch_app(package)\<close>\<close>

type_synonym environment = "call list \<Rightarrow> call \<Rightarrow> pyval outcome"

definition perform :: "environment \<Rightarrow> call \<Rightarrow> call list \<Rightarrow> pyval outcome \<times> call list" where
  \<comment> \<open>\<open>await client.method(...)\<close>\<close>
  "perform env c tr = (env tr c, tr @ [c])"

section \<open>The device: \<^verbatim>\<open>device.py\<close>\<close>

record session =
  closed :: bool

record firetv_client =
  client_host :: string
  client_port :: int
  client_token :: string
  session :: "session option"

record firetv_device =
  client :: "firetv_client option"    \<comment> \<open>\<open>self._client\<close>\<close>

text \<open>
  The application registry \<open>FIRE_TV_TOP_APPS\<close> and \<open>validate_package_name\<close> live in the
  absent \<^verbatim>\<open>intg_firetv/apps.py\<close>; both are parameters of \<open>send_command\<close>. The
  registry is the dict in iteration order: application id, then the \<open>name\<close> and
  \<open>package\<close> entries.
\<close>

record app_data =
  app_name :: string
  app_package :: string

type_synonym registry = "(string \<times> app_data) list"

definition nav_commands :: "(string \<times> key) list" where
  "nav_commands =
    [(''dpad_up'', Dpad_up), (''dpad_down'', Dpad_down), (''dpad_left'', Dpad_left),
     (''dpad_right'', Dpad_right), (''select'', Select), (''home'', Home),
     (''back'', Back), (''menu'', Menu), (''epg'', Epg),
     (''volume_up'', Volume_up), (''volume_down'', Volume_down), (''mute'', Mute),
     (''power'', Power), (''sleep'', Sleep)]"

definition media_commands :: "(string \<times> key) list" where
  "media_commands =
    [(''play_pause'', Play_pause), (''pause'', Pause),
     (''fast_forward'', Fast_forward), (''rewind'', Rewind)]"

definition normalized_name :: "string \<Rightarrow> string" where
  \<comment> \<open>\<open>app_data['name'].upper().replace(' ', '_').replace('+', 'PLUS')\<close>\<close>
  "normalized_name n = replace (replace (upper n) '' '' ''_'') ''+'' ''PLUS''"

fun launch_loop ::
  "environment \<Rightarrow> registry \<Rightarrow> string \<Rightarrow> call list \<Rightarrow> pyval outcome \<times> call list" where
  \<comment> \<open>The \<open>for app_id, app_data in FIRE_TV_TOP_APPS.items()\<close> loop and the return after it.\<close>
  "launch_loop env [] command tr = (Returned (PBool False), tr)"
| "launch_loop env ((app_id, data) # apps) command tr =
     (if normalized_name (app_name data) = replace command ''LAUNCH_'' ''''
      then perform env (Launch_app (app_package data)) tr
      else launch_loop env apps command tr)"

definition send_command_body ::
  "environment \<Rightarrow> registry \<Rightarrow> (string \<Rightarrow> bool) \<Rightarrow> string \<Rightarrow> call list
     \<Rightarrow> pyval outcome \<times> call list" where
  \<comment> \<open>The body of the \<open>try\<close> block of \<open>send_command\<close>.\<close>
  "send_command_body env apps validate_package_name command tr =
     (let command_lower = lower command in
      case map_of nav_commands command_lower of
        Some k \<Rightarrow> perform env (Press k) tr
      | None \<Rightarrow>
        (case map_of media_commands command_lower of
           Some k \<Rightarrow> perform env (Press k) tr
         | None \<Rightarrow>
           if startswith command ''LAUNCH_'' then launch_loop env apps command tr
           else if startswith command ''custom_app:'' then
             (case split_once command (CHR '':'') of
                [_, rest] \<Rightarrow>
                  (let package = strip rest in
                   if \<not> validate_package_name package then (Returned (PBool False), tr)
                   else perform env (Launch_app package) tr)
              | _ \<Rightarrow> (Raised (IndexError ''list index out of range''), tr))
           else (Returned (PBool False), tr)))"

definition send_command ::
  "environment \<Rightarrow> registry \<Rightarrow> (string \<Rightarrow> bool) \<Rightarrow> firetv_device \<Rightarrow> string \<Rightarrow> call list
     \<Rightarrow> pyval outcome \<times> call list" where
  \<comment> \<open>\<open>FireTVDevice.send_command\<close>; \<open>except Exception\<close> turns every exception into \<open>False\<close>.\<close>
  "send_command env apps validate_package_name dev command tr =
     (case client dev of
        None \<Rightarrow> (Returned (PBool False), tr)
      | Some c \<Rightarrow>
        (case send_command_body env apps validate_package_name command tr of
           (Raised err, tr') \<Rightarrow> (Returned (PBool False), tr')
         | (Returned v, tr') \<Rightarrow> (Returned v, tr')))"

text \<open>
  Modelled from the spec: \<open>validate_package_name\<close> of the absent
  \<^verbatim>\<open>intg_firetv/apps.py\<close>, "reverse-DNS-like token structure: dot-separated
  alphanumeric/underscore segments, no empty segments, minimum two segments".
  \<open>send_command\<close> takes the validator as a parameter; this one instantiates it.
\<close>

definition is_alnum :: "char \<Rightarrow> bool" where
  "is_alnum c = (is_upper c \<or> is_lower c \<or> is_digit c)"

definition spec_validate_package_name :: "string \<Rightarrow> bool" where
  "spec_validate_package_name package =
     (let segments = split_all package (CHR ''.'')
      in 2 \<le> length segments
         \<and> list_all (\<lambda>seg. seg \<noteq> [] \<and> list_all (\<lambda>c. is_alnum c \<or> c = CHR ''_'') seg)
              segments)"

definition check_client_connected ::
  "firetv_device \<Rightarrow> call list \<Rightarrow> bool \<times> firetv_device \<times> call list" where
  \<comment> \<open>\<open>FireTVDevice.check_client_connected\<close>, with the device and the trace it leaves.\<close>
  "check_client_connected dev tr =
     (case client dev of
        None \<Rightarrow> (False, dev, tr)
      | Some c \<Rightarrow>
        (case session c of
           None \<Rightarrow> (False, dev, tr)
         | Some s \<Rightarrow> if closed s then (False, dev, tr) else (True, dev, tr)))"

section \<open>The remote entity: \<^verbatim>\<open>remote.py\<close>\<close>

datatype status_code = OK | SERVER_ERROR | NOT_IMPLEMENTED | UNAUTHORIZED

datatype remote_state = ON | OFF

definition handle_command ::
  "environment \<Rightarrow> registry \<Rightarrow> (string \<Rightarrow> bool) \<Rightarrow> firetv_device \<Rightarrow> remote_state
     \<Rightarrow> string \<Rightarrow> (string \<rightharpoonup> string) option \<Rightarrow> call list
     \<Rightarrow> status_code \<times> remote_state \<times> call list" where
  \<comment> \<open>\<open>FireTVRemote._handle_command\<close>; \<open>attrs\<close> is \<open>self.attributes[Attributes.STATE]\<close>.\<close>
  "handle_command env apps validate_package_name dev attrs cmd_id params tr =
     (case (if cmd_id = ''send_cmd'' then
              (case params of None \<Rightarrow> None | Some p \<Rightarrow> p ''command'')
            else None) of
        Some command \<Rightarrow>
          (case send_command env apps validate_package_name dev command tr of
             (Returned success, tr') \<Rightarrow>
               (if truthy success then OK else SERVER_ERROR, attrs, tr')
           | (Raised (TokenInvalidError m), tr') \<Rightarrow> (UNAUTHORIZED, attrs, tr')
           | (Raised err, tr') \<Rightarrow> (SERVER_ERROR, attrs, tr'))
      | None \<Rightarrow>
          if cmd_id = ''on'' then (OK, ON, tr)
          else if cmd_id = ''off'' then (OK, OFF, tr)
          else if cmd_id = ''toggle'' then (OK, if attrs = ON then OFF else ON, tr)
          else (NOT_IMPLEMENTED, attrs, tr))"

section \<open>The setup flow: \<^verbatim>\<open>setup_flow.py\<close>\<close>

subsection \<open>Numbers and dictionaries\<close>

fun str_nat :: "nat \<Rightarrow> string" where
  "str_nat n =
     (if n < 10 then [char_of (48 + n)]
      else str_nat (n div 10) @ [char_of (48 + n mod 10)])"

definition str_int :: "int \<Rightarrow> string" where
  \<comment> \<open>\<open>str(i)\<close>, as an f-string formats an int.\<close>
  "str_int i = (if i < 0 then CHR ''-'' # str_nat (nat (- i)) else str_nat (nat i))"

fun digits_value :: "nat \<Rightarrow> string \<Rightarrow> nat option" where
  \<comment> \<open>Decimal digits, single underscores allowed between two digits.\<close>
  "digits_value acc [] = Some acc"
| "digits_value acc (c # cs) =
     (if is_digit c then digits_value (10 * acc + (code_point c - 48)) cs
      else if c = CHR ''_'' \<and> cs \<noteq> [] \<and> is_digit (hd cs) then digits_value acc cs
      else None)"

definition py_nat :: "string \<Rightarrow> nat option" where
  "py_nat s = (case s of [] \<Rightarrow> None
               | c # cs \<Rightarrow> if is_digit c then digits_value 0 s else None)"

definition py_int :: "string \<Rightarrow> int option" where
  \<comment> \<open>\<open>int(s)\<close> on a string: surrounding whitespace, an optional sign, decimal digits;
      \<open>None\<close> stands for \<open>ValueError\<close>. The interpreter's configurable limit on the number
      of digits is not modelled.\<close>
  "py_int s =
     (case strip s of
        [] \<Rightarrow> None
      | c # cs \<Rightarrow>
          if c = CHR ''-'' then map_option (\<lambda>n. - int n) (py_nat cs)
          else if c = CHR ''+'' then map_option int (py_nat cs)
          else map_option int (py_nat (c # cs)))"

type_synonym input_values = "string \<rightharpoonup> string"

definition get_str :: "input_values \<Rightarrow> string \<Rightarrow> string \<Rightarrow> string" where
  \<comment> \<open>\<open>input_values.get(k, dflt)\<close>; the values of the setup forms are text.\<close>
  "get_str d k dflt = (case d k of None \<Rightarrow> dflt | Some v \<Rightarrow> v)"

definition port_of :: "input_values \<Rightarrow> int option" where
  \<comment> \<open>\<open>int(input_values.get("port", 8080))\<close>; \<open>None\<close> stands for \<open>ValueError\<close>.\<close>
  "port_of input_values =
     (case input_values ''port'' of None \<Rightarrow> Some 8080 | Some p \<Rightarrow> py_int p)"

subsection \<open>State and results\<close>

record setup_flow =
  temp_host :: "string option"    \<comment> \<open>\<open>self._temp_host\<close>\<close>
  temp_port :: int                \<comment> \<open>\<open>self._temp_port\<close>\<close>


definition host_stored :: "setup_flow \<Rightarrow> bool" where
  \<comment> \<open>The truth value of \<open>self._temp_host\<close>: neither \<open>None\<close> nor the empty string.\<close>
  "host_stored flow = (case temp_host flow of None \<Rightarrow> False | Some h \<Rightarrow> h \<noteq> [])"

datatype firetv_config =
  FireTVConfig string string string int pyval
    \<comment> \<open>\<open>FireTVConfig(identifier, name, host, port, token)\<close>\<close>

datatype setup_result =
    RequestUserInput string "(string \<times> string \<times> string) list"
      \<comment> \<open>the English title, then id, English label and text value of each field\<close>
  | Config firetv_config

type_synonym 'a step = "'a outcome \<times> setup_flow \<times> call list"

definition and_then ::
  "pyval outcome \<times> call list \<Rightarrow> (pyval \<Rightarrow> call list \<Rightarrow> 'a outcome \<times> call list)
     \<Rightarrow> 'a outcome \<times> call list" where
  \<comment> \<open>Sequencing inside a \<open>try\<close> block: an exception skips the rest of the block.\<close>
  "and_then r f = (case r of (Raised err, tr) \<Rightarrow> (Raised err, tr)
                           | (Returned v, tr) \<Rightarrow> f v tr)"

subsection \<open>Step 1: \<open>_initial_connection_step\<close>\<close>

definition cannot_reach :: "string \<Rightarrow> int \<Rightarrow> string" where
  "cannot_reach host port =
     ''Cannot reach Fire TV at '' @ host @ '':'' @ str_int port
     @ ''\<newline>\<newline>Troubleshooting:\<newline>''
     @ ''1. Ensure Fire TV is powered on\<newline>''
     @ ''2. Verify IP address is correct\<newline>''
     @ ''3. Try different port (8080, 8009, 8443)\<newline>''
     @ ''4. Check network/firewall allows connection''"

definition pin_request_failed :: string where
  "pin_request_failed =
     ''Failed to request PIN display on Fire TV.\<newline>''
     @ ''Please ensure Fire TV is powered on and accessible.''"

definition pin_entry_form :: setup_result where
  "pin_entry_form =
     RequestUserInput ''Enter PIN from Fire TV''
       [(''pin'', ''4-Digit PIN (shown on TV screen)'', [])]"

definition initial_connection_try ::
  "environment \<Rightarrow> string \<Rightarrow> int \<Rightarrow> call list \<Rightarrow> setup_result outcome \<times> call list" where
  \<comment> \<open>The \<open>try\<close> block of \<open>_initial_connection_step\<close>.\<close>
  "initial_connection_try env host port tr =
     and_then (perform env Wake_up tr) (\<lambda>_ tr.
     and_then (perform env (Test_connection 3 3) (tr @ [Settle 3])) (\<lambda>connected tr.
       if \<not> truthy connected then
         and_then (perform env Close tr) (\<lambda>_ tr.
           (Raised (ValueError (cannot_reach host port)), tr))
       else
         and_then (perform env (Request_pin ''UC Remote'') tr) (\<lambda>pin_requested tr.
         and_then (perform env Close tr) (\<lambda>_ tr.
           if \<not> truthy pin_requested then (Raised (ValueError pin_request_failed), tr)
           else (Returned pin_entry_form, tr)))))"

definition except_close_and_reset ::
  "environment \<Rightarrow> string \<Rightarrow> exn \<Rightarrow> setup_flow \<Rightarrow> call list \<Rightarrow> 'a step" where
  \<comment> \<open>The \<open>except Exception as err\<close> handler of both steps: close the client, reset the
      stored host and port, raise \<open>ValueError(prefix + str(err))\<close>.\<close>
  "except_close_and_reset env prefix err flow tr =
     (case perform env Close tr of
        (Raised err', tr') \<Rightarrow> (Raised err', flow, tr')
      | (Returned _, tr') \<Rightarrow>
          (Raised (ValueError (prefix @ exn_str err)),
           flow\<lparr>temp_host := None, temp_port := 8080\<rparr>, tr'))"

definition initial_connection_step ::
  "environment \<Rightarrow> setup_flow \<Rightarrow> input_values \<Rightarrow> call list \<Rightarrow> setup_result step" where
  "initial_connection_step env flow input_values tr =
     (let host = strip (get_str input_values ''host'' []) in
      if host = [] then (Raised (ValueError ''IP address is required''), flow, tr)
      else
        (case port_of input_values of
           None \<Rightarrow> (Raised (ValueError ''Port must be a number''), flow, tr)
         | Some port \<Rightarrow>
           (let flow = flow\<lparr>temp_host := Some host, temp_port := port\<rparr>;
                tr = tr @ [New_client host port]
            in case initial_connection_try env host port tr of
                 (Raised err, tr) \<Rightarrow> except_close_and_reset env ''Setup failed: '' err flow tr
               | (Returned form, tr) \<Rightarrow> (Returned form, flow, tr))))"

subsection \<open>Step 2: \<open>_verify_pin_step\<close>\<close>

definition pin_verification_failed :: string where
  "pin_verification_failed =
     ''PIN verification failed.\<newline>''
     @ ''Please check the PIN on your TV screen and try again.''"

definition verify_pin_try ::
  "environment \<Rightarrow> string \<Rightarrow> call list \<Rightarrow> pyval outcome \<times> call list" where
  \<comment> \<open>The \<open>try\<close> block of \<open>_verify_pin_step\<close> up to the token check; it yields the token.\<close>
  "verify_pin_try env pin tr =
     and_then (perform env (Verify_pin pin) tr) (\<lambda>token tr.
     and_then (perform env Close tr) (\<lambda>_ tr.
       if \<not> truthy token then (Raised (ValueError pin_verification_failed), tr)
       else (Returned token, tr)))"

definition verify_pin_step ::
  "environment \<Rightarrow> setup_flow \<Rightarrow> input_values \<Rightarrow> call list \<Rightarrow> setup_result step" where
  "verify_pin_step env flow input_values tr =
     (let pin = strip (get_str input_values ''pin'' []) in
      if pin = [] then (Raised (ValueError ''PIN is required''), flow, tr)
      else if \<not> host_stored flow then
        (Raised (ValueError ''Setup flow error: no host stored from previous step''), flow, tr)
      else
        (case temp_host flow of
           None \<Rightarrow>
             (Raised (ValueError ''Setup flow error: no host stored from previous step''),
              flow, tr)
         | Some host \<Rightarrow>
             (let port = temp_port flow;
                  name = strip (get_str input_values ''name'' (''Fire TV ('' @ host @ '')''));
                  tr = tr @ [New_client host port]
              in case verify_pin_try env pin tr of
                   (Raised err, tr) \<Rightarrow>
                     except_close_and_reset env ''PIN verification failed: '' err flow tr
                 | (Returned token, tr) \<Rightarrow>
                     (Returned (Config (FireTVConfig
                        (''firetv_'' @ replace host ''.'' ''_'' @ ''_'' @ str_int port)
                        name host port token)),
                      flow\<lparr>temp_host := None, temp_port := 8080\<rparr>, tr))))"

subsection \<open>\<open>query_device\<close>\<close>

definition query_device ::
  "environment \<Rightarrow> setup_flow \<Rightarrow> input_values \<Rightarrow> call list \<Rightarrow> setup_result step" where
  "query_device env flow input_values tr =
     (if input_values ''pin'' \<noteq> None \<and> host_stored flow
      then verify_pin_step env flow input_values tr
      else initial_connection_step env flow input_values tr)"

section \<open>Auxiliary notions for the statements\<close>






subsection \<open>Example devices\<close>

text \<open>
  Concrete inputs at which the model is evaluated below: a device that answers every
  call with \<open>True\<close>, a device that rejects the token on every call, a connected
  \<open>FireTVDevice\<close>, and a two-entry registry in the shape of \<open>FIRE_TV_TOP_APPS\<close>.
\<close>

definition responsive_device :: environment where
  "responsive_device tr c = Returned (PBool True)"

definition rejecting_device :: environment where
  "rejecting_device tr c = Raised (TokenInvalidError ''Authentication token invalid'')"

definition connected_device :: firetv_device where
  "connected_device =
     \<lparr>client = Some \<lparr>client_host = ''192.168.1.50'', client_port = 8080,
                      client_token = ''token'', session = Some \<lparr>closed = False\<rparr>\<rparr>\<rparr>"

definition example_apps :: registry where
  "example_apps =
     [(''netflix'', \<lparr>app_name = ''Netflix'', app_package = ''com.netflix.ninja''\<rparr>),
      (''prime_video'', \<lparr>app_name = ''Prime Video'', app_package = ''com.amazon.avod''\<rparr>)]"

section \<open>Properties of \<open>send_command\<close>\<close>

subsection \<open>Strings\<close>

lemma lower_append: "lower (a @ b) = lower a @ lower b"
  by (simp add: lower_def)


lemma lower_custom_app: "lower ''custom_app:'' = ''custom_app:''"
  by code_simp


lemma lower_custom_app_append: "lower (''custom_app:'' @ r) = ''custom_app:'' @ lower r"
  by (simp only: lower_append lower_custom_app)


lemma custom_app_not_key:
  "map_of nav_commands (lower (''custom_app:'' @ r)) = None"
  "map_of media_commands (lower (''custom_app:'' @ r)) = None"
  unfolding lower_custom_app_append by (simp_all add: nav_commands_def media_commands_def)

lemma startswith_append: "startswith (p @ r) p"
  by (simp add: startswith_def)



lemma custom_app_not_launch: "\<not> startswith (''custom_app:'' @ r) ''LAUNCH_''"
  by (simp add: startswith_def)

lemma split_once_custom_app:
  "split_once (''custom_app:'' @ r) (CHR '':'') = [''custom_app'', r]"
  by (simp add: split_once_def)




subsection \<open>The branches of the dispatch\<close>




lemma send_command_body_custom_app:
  assumes "map_of nav_commands (lower command) = None"
    and "map_of media_commands (lower command) = None"
    and "\<not> startswith command ''LAUNCH_''"
    and "startswith command ''custom_app:''"
    and "split_once command (CHR '':'') = [before, rest]"
  shows "send_command_body env apps validate_package_name command tr =
     (if validate_package_name (strip rest)
      then perform env (Launch_app (strip rest)) tr
      else (Returned (PBool False), tr))"
  using assms by (simp add: send_command_body_def)



lemma send_command_never_raises:
  "fst (send_command env apps validate_package_name dev command tr) \<noteq> Raised err"
  by (simp add: send_command_def split: option.splits prod.splits outcome.splits)

subsection \<open>No client\<close>

text \<open>
  C10. With no client on the device (\<open>self._client\<close> is \<open>None\<close>), \<open>send_command\<close>
  returns \<open>False\<close> for every command string: it raises nothing and the trace of
  transport calls is the one it started with.
\<close>

theorem send_command_without_client:
  "send_command env apps validate_package_name (dev\<lparr>client := None\<rparr>) command tr
     = (Returned (PBool False), tr)"
  by (simp add: send_command_def)

subsection \<open>Exceptions of the transport\<close>

text \<open>
  C1. What the code does when the transport raises \<open>TokenInvalidError\<close>
  while \<open>send_command\<close> executes \<open>DPAD_UP\<close>. The \<open>except Exception\<close> clause of
  \<open>send_command\<close> catches it like any other exception (\<open>send_command_never_raises\<close>):
  the caller gets \<open>False\<close>, and \<open>_handle_command\<close> answers \<open>SERVER_ERROR\<close>, not
  \<open>UNAUTHORIZED\<close>; its \<open>except TokenInvalidError\<close> clause is never entered.
\<close>

theorem token_invalid_is_swallowed:
  "send_command rejecting_device example_apps spec_validate_package_name connected_device
       ''DPAD_UP'' []
     = (Returned (PBool False), [Press Dpad_up])
   \<and> handle_command rejecting_device example_apps spec_validate_package_name
        connected_device ON ''send_cmd'' (Some [''command'' \<mapsto> ''DPAD_UP'']) []
     = (SERVER_ERROR, ON, [Press Dpad_up])"
  by code_simp

subsection \<open>Letter case\<close>




subsection \<open>Launching applications\<close>



text \<open>
  C6. For a command \<open>custom_app:<package>\<close>, \<open>send_command\<close> takes everything after
  the first colon, strips it, and asks the validator: when the validator accepts, the
  stripped text is what \<open>launch_app\<close> is called with (once, and \<open>send_command\<close> returns
  what the call returns, \<open>False\<close> if it raises); when it rejects, the result is
  \<open>False\<close> and no call is made. This holds for every validator, hence for the one the
  spec describes.
\<close>

theorem custom_app_dispatch:
  assumes "client dev = Some c"
  shows "send_command env apps validate_package_name dev (''custom_app:'' @ rest) tr =
     (if validate_package_name (strip rest)
      then (case env tr (Launch_app (strip rest)) of
              Returned v \<Rightarrow> Returned v
            | Raised err \<Rightarrow> Returned (PBool False),
            tr @ [Launch_app (strip rest)])
      else (Returned (PBool False), tr))"
proof -
  have body: "send_command_body env apps validate_package_name (''custom_app:'' @ rest) tr =
     (if validate_package_name (strip rest)
      then perform env (Launch_app (strip rest)) tr
      else (Returned (PBool False), tr))"
    by (rule send_command_body_custom_app
        [OF custom_app_not_key custom_app_not_launch startswith_append split_once_custom_app])
  show ?thesis
    unfolding send_command_def body using assms
    by (simp add: perform_def split: outcome.splits)
qed

theorem custom_app_dispatch_witness:
  "send_command responsive_device example_apps spec_validate_package_name connected_device
       ''custom_app: com.spotify.tv.android'' []
     = (Returned (PBool True), [Launch_app ''com.spotify.tv.android''])
   \<and> send_command responsive_device example_apps spec_validate_package_name
        connected_device ''custom_app:notapackage'' []
     = (Returned (PBool False), [])"
proof -
  have c: "client connected_device
             = Some \<lparr>client_host = ''192.168.1.50'', client_port = 8080,
                     client_token = ''token'', session = Some \<lparr>closed = False\<rparr>\<rparr>"
    by (simp add: connected_device_def)
  have s1: "strip '' com.spotify.tv.android'' = ''com.spotify.tv.android''" by code_simp
  have s2: "strip ''notapackage'' = ''notapackage''" by code_simp
  have v1: "spec_validate_package_name ''com.spotify.tv.android''" by code_simp
  have v2: "\<not> spec_validate_package_name ''notapackage''" by code_simp
  have e: "responsive_device [] (Launch_app ''com.spotify.tv.android'')
             = Returned (PBool True)"
    by (simp add: responsive_device_def)
  from custom_app_dispatch [OF c, of responsive_device example_apps
      spec_validate_package_name "'' com.spotify.tv.android''" "[]"] s1 v1 e
  have "send_command responsive_device example_apps spec_validate_package_name
          connected_device ''custom_app: com.spotify.tv.android'' []
        = (Returned (PBool True), [Launch_app ''com.spotify.tv.android''])"
    by simp
  moreover
  from custom_app_dispatch [OF c, of responsive_device example_apps
      spec_validate_package_name "''notapackage''" "[]"] s2 v2
  have "send_command responsive_device example_apps spec_validate_package_name
          connected_device ''custom_app:notapackage'' []
        = (Returned (PBool False), [])"
    by simp
  ultimately show ?thesis by blast
qed

section \<open>The health predicate\<close>

text \<open>
  C9. \<open>check_client_connected\<close> returns \<open>True\<close> exactly when the device has a client,
  the client has a session object, and that session is not closed. It leaves the
  device as it found it and adds no call to the trace.
\<close>

theorem check_client_connected_iff:
  "check_client_connected dev tr =
     ((\<exists>c s. client dev = Some c \<and> session c = Some s \<and> \<not> closed s), dev, tr)"
  by (auto simp: check_client_connected_def split: option.splits)

section \<open>Properties of the setup flow\<close>

subsection \<open>PIN submissions\<close>

text \<open>
  C2. What the code does when a host is stored (here with the port 8009)
  and the PIN is blank. The flow raises \<open>ValueError('PIN is required')\<close> before any
  client is constructed, for every device behaviour, and the stored host and port
  are still there afterwards: the check sits before the \<open>try\<close> block whose handler
  resets them.
\<close>

theorem empty_pin_keeps_pairing_context:
  "query_device env \<lparr>temp_host = Some ''192.168.1.50'', temp_port = 8009\<rparr>
       [''pin'' \<mapsto> ''  ''] tr
     = (Raised (ValueError ''PIN is required''),
        \<lparr>temp_host = Some ''192.168.1.50'', temp_port = 8009\<rparr>, tr)"
  by code_simp




subsection \<open>Closing the temporary client\<close>








subsection \<open>The initial pairing step\<close>




end
